theory Spec2Isabelle
  imports Main "HOL-Library.Word"
begin

unbundle bit_operations_syntax

section \<open>Texts, failures and ropes\<close>

text \<open>
  A Go string that holds valid UTF-8 is modelled by the sequence of its runes (Unicode
  scalar values), which is what \<^verbatim>\<open>[]rune(text)\<close> yields; \<^verbatim>\<open>len([]rune(text))\<close> is the
  length of that sequence. Go's \<^verbatim>\<open>int\<close> is modelled by \<open>int\<close> with exact arithmetic.
  Go's \<^verbatim>\<open>int\<close> has 32 or 64 bits, by the platform, and wraps around. Where that
  shows, it is written out: the length accounting of the builder is stated for calls
  that stay in the range (\<open>inIntRange\<close>), and the product in \<^verbatim>\<open>SliceOptimized\<close>, which
  leaves the range on a large rope, is wrapped (\<open>wrapInt\<close>). \<open>goDiv\<close> is Go's integer
  division, which truncates toward zero.

  The sources name some files only by number; the sections say which file each
  definition embeds: the ChangeSet with Apply and Invert is unnamed/part_006, the error
  values are unnamed/part_003, and the composition, the position mapping of a ChangeSet
  and Transform are the second part of pkg/rope/history.go.
\<close>

type_synonym rune = nat
type_synonym gostring = "rune list"

definition inIntRange :: "nat \<Rightarrow> int \<Rightarrow> bool" where
  "inIntRange bits x = (- (2 ^ (bits - 1)) \<le> x \<and> x < 2 ^ (bits - 1))"

definition wrapInt :: "nat \<Rightarrow> int \<Rightarrow> int" where
  "wrapInt bits x = (x + 2 ^ (bits - 1)) mod 2 ^ bits - 2 ^ (bits - 1)"

definition goDiv :: "int \<Rightarrow> int \<Rightarrow> int" where
  "goDiv a b = sgn a * sgn b * (\<bar>a\<bar> div \<bar>b\<bar>)"

definition runeCount :: "gostring \<Rightarrow> int" where
  "runeCount t = int (length t)"

text \<open>
  The error values of the rope package (unnamed/part_003), and the abort of a
  \<^verbatim>\<open>panic(msg)\<close>, as one type of failures. \<open>ErrInvalidInput\<close> keeps the fields Parameter and Reason.
\<close>

datatype failure =
    ErrOutOfBounds string int int int
  | ErrInvalidRange string int int int
  | ErrInvalidInput string string
  | Panic string

definition ErrLengthMismatch :: failure where
  "ErrLengthMismatch = ErrInvalidInput ''length'' ''document length mismatch''"

definition errSliceOutOfBounds :: "int \<Rightarrow> int \<Rightarrow> int \<Rightarrow> failure option" where
  "errSliceOutOfBounds start end' max' =
     (if start > end' then Some (ErrInvalidRange ''Slice'' start end' max')
      else if end' > max' then Some (ErrInvalidRange ''Slice'' start end' max')
      else if start < 0 then Some (ErrInvalidRange ''Slice'' start end' max')
      else None)"

definition errInsertOutOfBounds :: "int \<Rightarrow> int \<Rightarrow> failure option" where
  "errInsertOutOfBounds pos max' =
     (if pos < 0 \<or> pos > max' then Some (ErrOutOfBounds ''Insert'' pos 0 (max' + 1))
      else None)"

definition errDeleteOutOfBounds :: "int \<Rightarrow> int \<Rightarrow> int \<Rightarrow> failure option" where
  "errDeleteOutOfBounds start end' max' =
     (if start < 0 \<or> end' > max' \<or> start > end'
      then Some (ErrInvalidRange ''Delete'' start end' max')
      else None)"

text \<open>
  Modelled from the spec: rope.go and node.go (the type Rope with its nodes, and
  Length, String, Chunks, Split, Insert, Delete and Slice) are not among the sources. The
  spec's data model is followed: a node is a leaf holding text or a branch with two
  children; the cached summaries are computed instead of stored. \<open>insert(pos, text)\<close>
  splits at \<open>pos\<close> and concatenates \<open>left\<close>, a leaf of \<open>text\<close> and \<open>right\<close>;
  \<open>delete(a, b)\<close> concatenates the part before \<open>a\<close> and the part from \<open>b\<close>;
  \<open>slice(a, b)\<close> is the substring. Their range checks are the helpers above.
\<close>

datatype RopeNode = LeafNode gostring | InternalNode RopeNode RopeNode

fun Rope_Chunks :: "RopeNode \<Rightarrow> gostring list" where
  "Rope_Chunks (LeafNode t) = [t]"
| "Rope_Chunks (InternalNode l r) = Rope_Chunks l @ Rope_Chunks r"

definition Rope_String :: "RopeNode \<Rightarrow> gostring" where
  "Rope_String r = concat (Rope_Chunks r)"

definition Rope_Length :: "RopeNode \<Rightarrow> int" where
  "Rope_Length r = int (length (Rope_String r))"

text \<open>
  The field \<^verbatim>\<open>size\<close> of a rope is its length in bytes (\<^verbatim>\<open>size: r.size + len(text)\<close> in
  append_optimized.go; \<open>length_bytes\<close> in the spec): the number of bytes of the UTF-8
  encoding of its text.
\<close>

definition utf8Encode :: "rune \<Rightarrow> 8 word list" where
  "utf8Encode c =
     (if c < 0x80 then [of_nat c]
      else if c < 0x800 then [of_nat (0xC0 + c div 0x40), of_nat (0x80 + c mod 0x40)]
      else if c < 0x10000
      then [of_nat (0xE0 + c div 0x1000), of_nat (0x80 + (c div 0x40) mod 0x40),
            of_nat (0x80 + c mod 0x40)]
      else [of_nat (0xF0 + c div 0x40000), of_nat (0x80 + (c div 0x1000) mod 0x40),
            of_nat (0x80 + (c div 0x40) mod 0x40), of_nat (0x80 + c mod 0x40)])"

definition Rope_Size :: "RopeNode \<Rightarrow> int" where
  "Rope_Size r = int (length (concat (map utf8Encode (Rope_String r))))"

fun Rope_Split :: "RopeNode \<Rightarrow> nat \<Rightarrow> RopeNode \<times> RopeNode" where
  "Rope_Split (LeafNode t) n = (LeafNode (take n t), LeafNode (drop n t))"
| "Rope_Split (InternalNode l r) n =
     (if n \<le> length (Rope_String l)
      then (fst (Rope_Split l n), InternalNode (snd (Rope_Split l n)) r)
      else (InternalNode l (fst (Rope_Split r (n - length (Rope_String l)))),
            snd (Rope_Split r (n - length (Rope_String l)))))"

definition Rope_Insert :: "RopeNode \<Rightarrow> int \<Rightarrow> gostring \<Rightarrow> failure + RopeNode" where
  "Rope_Insert r pos t =
     (case errInsertOutOfBounds pos (Rope_Length r) of
        Some e \<Rightarrow> Inl e
      | None \<Rightarrow>
          Inr (InternalNode (InternalNode (fst (Rope_Split r (nat pos))) (LeafNode t))
                            (snd (Rope_Split r (nat pos)))))"

definition Rope_Delete :: "RopeNode \<Rightarrow> int \<Rightarrow> int \<Rightarrow> failure + RopeNode" where
  "Rope_Delete r start end' =
     (case errDeleteOutOfBounds start end' (Rope_Length r) of
        Some e \<Rightarrow> Inl e
      | None \<Rightarrow>
          Inr (InternalNode (fst (Rope_Split r (nat start))) (snd (Rope_Split r (nat end')))))"

definition Rope_Slice :: "RopeNode \<Rightarrow> int \<Rightarrow> int \<Rightarrow> failure + gostring" where
  "Rope_Slice r start end' =
     (case errSliceOutOfBounds start end' (Rope_Length r) of
        Some e \<Rightarrow> Inl e
      | None \<Rightarrow> Inr (take (nat (end' - start)) (drop (nat start) (Rope_String r))))"

text \<open>
  \<^verbatim>\<open>LenUTF16\<close> (text_utf16.go, as quoted in the repository's note on length calculation,
  unnamed/part_000): a rune up to U+FFFF counts one UTF-16 code unit, any other rune two.
\<close>

definition utf16Units :: "rune \<Rightarrow> int" where
  "utf16Units c = (if c \<le> 0xFFFF then 1 else 2)"

definition utf16Count :: "gostring \<Rightarrow> int" where
  "utf16Count t = sum_list (map utf16Units t)"

definition LenUTF16 :: "RopeNode \<Rightarrow> int" where
  "LenUTF16 r = (if Rope_Length r = 0 then 0 else utf16Count (Rope_String r))"

section \<open>ChangeSet\<close>

text \<open>
  An \<^verbatim>\<open>Operation\<close> carries its \<^verbatim>\<open>OpType\<close> and the one field that type uses
  (Length for Retain and Delete, Text for Insert); the builder methods are the only
  way to add operations, and they set exactly that field.
\<close>

datatype Operation = OpRetain int | OpDelete int | OpInsert gostring

record ChangeSet =
  operations :: "Operation list"
  lenBefore :: int
  lenAfter :: int

definition NewChangeSet :: "int \<Rightarrow> ChangeSet" where
  "NewChangeSet n = \<lparr>operations = [], lenBefore = n, lenAfter = n\<rparr>"

definition Retain :: "ChangeSet \<Rightarrow> int \<Rightarrow> ChangeSet" where
  "Retain cs n = cs\<lparr>operations := operations cs @ [OpRetain n]\<rparr>"

definition Delete :: "ChangeSet \<Rightarrow> int \<Rightarrow> ChangeSet" where
  "Delete cs n = cs\<lparr>operations := operations cs @ [OpDelete n], lenAfter := lenAfter cs - n\<rparr>"

definition Insert :: "ChangeSet \<Rightarrow> gostring \<Rightarrow> ChangeSet" where
  "Insert cs t =
     cs\<lparr>operations := operations cs @ [OpInsert t], lenAfter := lenAfter cs + runeCount t\<rparr>"

definition IsEmpty :: "ChangeSet \<Rightarrow> bool" where
  "IsEmpty cs = (length (operations cs) = 0)"

text \<open>A sequence of builder calls on a fresh ChangeSet.\<close>

datatype builder_call = CallRetain int | CallDelete int | CallInsert gostring

fun call :: "ChangeSet \<Rightarrow> builder_call \<Rightarrow> ChangeSet" where
  "call cs (CallRetain n) = Retain cs n"
| "call cs (CallDelete n) = Delete cs n"
| "call cs (CallInsert t) = Insert cs t"

definition build :: "int \<Rightarrow> builder_call list \<Rightarrow> ChangeSet" where
  "build n calls = foldl call (NewChangeSet n) calls"

fun deletedLength :: "builder_call \<Rightarrow> int" where
  "deletedLength (CallDelete n) = n"
| "deletedLength _ = 0"

fun insertedRunes :: "builder_call \<Rightarrow> int" where
  "insertedRunes (CallInsert t) = runeCount t"
| "insertedRunes _ = 0"

fun insertedUTF16 :: "builder_call \<Rightarrow> int" where
  "insertedUTF16 (CallInsert t) = utf16Count t"
| "insertedUTF16 _ = 0"

text \<open>
  The builder's additions and subtractions on \<^verbatim>\<open>lenAfter\<close> are Go's, which wrap around.
  \<open>withinIntRange bits cs calls\<close> says that the calls made on \<open>cs\<close> in this order stay
  within an \<^verbatim>\<open>int\<close> of \<open>bits\<close> bits: each count passed (for an Insert, the number of
  runes of its text) and each value that \<^verbatim>\<open>lenAfter\<close> takes lies in the range, so that no
  update wraps and the exact arithmetic of the model is the code's.
\<close>

fun argument :: "builder_call \<Rightarrow> int" where
  "argument (CallRetain n) = n"
| "argument (CallDelete n) = n"
| "argument (CallInsert t) = runeCount t"

fun withinIntRange :: "nat \<Rightarrow> ChangeSet \<Rightarrow> builder_call list \<Rightarrow> bool" where
  "withinIntRange bits cs [] = True"
| "withinIntRange bits cs (c # calls) =
     (inIntRange bits (argument c) \<and> inIntRange bits (lenAfter (call cs c)) \<and>
      withinIntRange bits (call cs c) calls)"

subsection \<open>fuse, Apply and Invert (unnamed/part_006)\<close>

text \<open>
  \<^verbatim>\<open>fuse\<close> walks the operations and merges each one into the last element of
  \<^verbatim>\<open>fused\<close> when both have the same type.
\<close>

fun sameOpType :: "Operation \<Rightarrow> Operation \<Rightarrow> bool" where
  "sameOpType (OpRetain a) (OpRetain b) = True"
| "sameOpType (OpDelete a) (OpDelete b) = True"
| "sameOpType (OpInsert s) (OpInsert t) = True"
| "sameOpType _ _ = False"

fun mergeOp :: "Operation \<Rightarrow> Operation \<Rightarrow> Operation" where
  "mergeOp (OpRetain a) (OpRetain b) = OpRetain (a + b)"
| "mergeOp (OpDelete a) (OpDelete b) = OpDelete (a + b)"
| "mergeOp (OpInsert s) (OpInsert t) = OpInsert (s @ t)"
| "mergeOp prev _ = prev"

definition fuse_step :: "Operation list \<Rightarrow> Operation \<Rightarrow> Operation list" where
  "fuse_step fused op =
     (if length fused > 0 \<and> sameOpType (last fused) op
      then butlast fused @ [mergeOp (last fused) op]
      else fused @ [op])"

definition fuse :: "ChangeSet \<Rightarrow> ChangeSet" where
  "fuse cs =
     (if length (operations cs) \<le> 1 then cs
      else cs\<lparr>operations := foldl fuse_step [] (operations cs)\<rparr>)"

text \<open>
  The loop of \<^verbatim>\<open>Apply\<close>, with its state \<^verbatim>\<open>result\<close> and \<^verbatim>\<open>pos\<close>. The file calls
  \<^verbatim>\<open>Insert\<close>, \<^verbatim>\<open>Delete\<close> and \<^verbatim>\<open>Slice\<close> of the rope as functions of one result, so a failed
  range check of the rope ends the call; the model returns that failure.
\<close>

fun apply_ops :: "Operation list \<Rightarrow> RopeNode \<Rightarrow> int \<Rightarrow> failure + RopeNode" where
  "apply_ops [] result pos = Inr result"
| "apply_ops (OpRetain n # ops) result pos = apply_ops ops result (pos + n)"
| "apply_ops (OpDelete n # ops) result pos =
     (case Rope_Delete result pos (pos + n) of
        Inl e \<Rightarrow> Inl e
      | Inr result' \<Rightarrow> apply_ops ops result' pos)"
| "apply_ops (OpInsert t # ops) result pos =
     (case Rope_Insert result pos t of
        Inl e \<Rightarrow> Inl e
      | Inr result' \<Rightarrow> apply_ops ops result' (pos + runeCount t))"

text \<open>
  \<^verbatim>\<open>Apply\<close> returns the rope; a nil rope is \<open>None\<close>. It also fuses the receiver in
  place: \<open>Apply_receiver\<close> is the ChangeSet after the call.
\<close>

definition Apply :: "ChangeSet \<Rightarrow> RopeNode option \<Rightarrow> failure + RopeNode option" where
  "Apply cs r =
     (case r of
        None \<Rightarrow> Inr None
      | Some rope \<Rightarrow>
          if IsEmpty cs then Inr (Some rope)
          else (case apply_ops (operations (fuse cs)) rope 0 of
                  Inl e \<Rightarrow> Inl e
                | Inr result \<Rightarrow> Inr (Some result)))"


fun invert_ops :: "Operation list \<Rightarrow> RopeNode \<Rightarrow> int \<Rightarrow> ChangeSet \<Rightarrow> failure + ChangeSet" where
  "invert_ops [] original pos inverted = Inr inverted"
| "invert_ops (OpRetain n # ops) original pos inverted =
     invert_ops ops original (pos + n) (Retain inverted n)"
| "invert_ops (OpDelete n # ops) original pos inverted =
     (case Rope_Slice original pos (pos + n) of
        Inl e \<Rightarrow> Inl e
      | Inr deletedText \<Rightarrow> invert_ops ops original (pos + n) (Insert inverted deletedText))"
| "invert_ops (OpInsert t # ops) original pos inverted =
     invert_ops ops original pos (Delete inverted (runeCount t))"

definition Invert :: "ChangeSet \<Rightarrow> RopeNode option \<Rightarrow> failure + ChangeSet" where
  "Invert cs original =
     (case original of
        None \<Rightarrow> Inr (NewChangeSet (lenAfter cs))
      | Some rope \<Rightarrow>
          (case invert_ops (operations cs) rope 0 (NewChangeSet (lenAfter cs)) of
             Inl e \<Rightarrow> Inl e
           | Inr inverted \<Rightarrow> Inr (fuse inverted)))"

text \<open>
  The well-formedness of the spec's data model, relative to a rope of \<open>n\<close> characters:
  no count is negative, and the Retain and Delete counts together do not exceed \<open>n\<close>
  (the invariant asks for equality with \<open>lenBefore\<close>; the tests of the repository leave
  the trailing Retain out). \<open>baseLength\<close> is what an operation consumes of the old
  document.
\<close>

fun baseLength :: "Operation \<Rightarrow> int" where
  "baseLength (OpRetain n) = n"
| "baseLength (OpDelete n) = n"
| "baseLength (OpInsert t) = 0"

definition wellFormed :: "ChangeSet \<Rightarrow> int \<Rightarrow> bool" where
  "wellFormed cs n =
     (list_all (\<lambda>op. 0 \<le> baseLength op) (operations cs) \<and>
      sum_list (map baseLength (operations cs)) \<le> n)"

subsection \<open>Compose and Transform (pkg/rope/history.go, second part)\<close>

record changesetComposer =
  first :: ChangeSet
  second :: ChangeSet
  result :: ChangeSet
  posInFirst :: int
  posInSecond :: int
  posInResult :: int

fun buildPositionMap_ops ::
  "Operation list \<Rightarrow> (int \<rightharpoonup> int) \<Rightarrow> int \<Rightarrow> int \<Rightarrow> (int \<rightharpoonup> int)" where
  "buildPositionMap_ops [] posMap pos newPos = posMap"
| "buildPositionMap_ops (OpRetain n # ops) posMap pos newPos =
     buildPositionMap_ops ops
       (fold (\<lambda>i m. m(pos + int i \<mapsto> newPos + int i)) [0..<nat n] posMap)
       (pos + n) (newPos + n)"
| "buildPositionMap_ops (OpDelete n # ops) posMap pos newPos =
     buildPositionMap_ops ops
       (fold (\<lambda>i m. m(pos + int i \<mapsto> newPos)) [0..<nat n] posMap)
       (pos + n) newPos"
| "buildPositionMap_ops (OpInsert t # ops) posMap pos newPos =
     buildPositionMap_ops ops posMap pos (newPos + runeCount t)"

definition buildPositionMap :: "ChangeSet \<Rightarrow> (int \<rightharpoonup> int)" where
  "buildPositionMap cs = buildPositionMap_ops (operations cs) Map.empty 0 0"

text \<open>
  \<^verbatim>\<open>shouldProcessFirst\<close> receives the second changeset's operations and an index; the
  model passes the operations from that index on. The position map is received and not
  read, as in the source.
\<close>

fun shouldProcessFirst ::
  "changesetComposer \<Rightarrow> Operation \<Rightarrow> Operation list \<Rightarrow> (int \<rightharpoonup> int) \<Rightarrow> bool" where
  "shouldProcessFirst c firstOp [] posMap = True"
| "shouldProcessFirst c (OpRetain n) secondOps posMap = (posInFirst c < posInSecond c)"
| "shouldProcessFirst c (OpDelete n) secondOps posMap = (posInFirst c < posInSecond c)"
| "shouldProcessFirst c (OpInsert t) secondOps posMap = (posInFirst c \<le> posInSecond c)"

fun processFirstOp :: "changesetComposer \<Rightarrow> Operation \<Rightarrow> changesetComposer" where
  "processFirstOp c (OpRetain n) =
     c\<lparr>result := Retain (result c) n, posInFirst := posInFirst c + n,
       posInSecond := posInSecond c + n, posInResult := posInResult c + n\<rparr>"
| "processFirstOp c (OpDelete n) =
     c\<lparr>result := Delete (result c) n, posInFirst := posInFirst c + n\<rparr>"
| "processFirstOp c (OpInsert t) =
     c\<lparr>result := Insert (result c) t, posInResult := posInResult c + runeCount t\<rparr>"

fun processSecondOp ::
  "changesetComposer \<Rightarrow> Operation \<Rightarrow> (int \<rightharpoonup> int) \<Rightarrow> changesetComposer" where
  "processSecondOp c (OpRetain n) posMap =
     c\<lparr>result := Retain (result c) n, posInSecond := posInSecond c + n,
       posInFirst := posInFirst c + n, posInResult := posInResult c + n\<rparr>"
| "processSecondOp c (OpDelete n) posMap =
     c\<lparr>result := Delete (result c) n, posInSecond := posInSecond c + n,
       posInFirst := posInFirst c + n\<rparr>"
| "processSecondOp c (OpInsert t) posMap =
     c\<lparr>result := Insert (result c) t, posInResult := posInResult c + runeCount t\<rparr>"

text \<open>
  The loop of \<^verbatim>\<open>compose\<close> over the indices \<open>i\<close> and \<open>j\<close>, as a recursion over the
  operations that remain in each changeset.
\<close>

fun compose_loop ::
  "Operation list \<Rightarrow> Operation list \<Rightarrow> (int \<rightharpoonup> int) \<Rightarrow> changesetComposer
     \<Rightarrow> changesetComposer" where
  "compose_loop [] [] posMap c = c"
| "compose_loop (f # firstOps) [] posMap c =
     compose_loop firstOps [] posMap (processFirstOp c f)"
| "compose_loop [] (s # secondOps) posMap c =
     compose_loop [] secondOps posMap (processSecondOp c s posMap)"
| "compose_loop (f # firstOps) (s # secondOps) posMap c =
     (if shouldProcessFirst c f (s # secondOps) posMap
      then compose_loop firstOps (s # secondOps) posMap (processFirstOp c f)
      else compose_loop (f # firstOps) secondOps posMap (processSecondOp c s posMap))"

definition compose :: "changesetComposer \<Rightarrow> ChangeSet" where
  "compose c =
     (let posMap = buildPositionMap (first c);
          c0 = c\<lparr>posInFirst := 0, posInSecond := 0, posInResult := 0\<rparr>;
          c1 = compose_loop (operations (first c)) (operations (second c)) posMap c0
      in (result c1)\<lparr>lenAfter := posInResult c1\<rparr>)"

definition copyOf :: "ChangeSet \<Rightarrow> ChangeSet" where
  "copyOf cs =
     (NewChangeSet (lenBefore cs))\<lparr>operations := [] @ operations cs, lenAfter := lenAfter cs\<rparr>"

definition Compose :: "ChangeSet \<Rightarrow> ChangeSet option \<Rightarrow> ChangeSet" where
  "Compose cs other =
     (if IsEmpty cs then
        (case other of
           None \<Rightarrow> NewChangeSet (lenBefore cs)
         | Some other' \<Rightarrow>
             if IsEmpty other' then NewChangeSet (lenBefore cs) else copyOf other')
      else
        (case other of
           None \<Rightarrow> copyOf cs
         | Some other' \<Rightarrow>
             if IsEmpty other' then copyOf cs
             else compose \<lparr>first = cs, second = other',
                           result = NewChangeSet (lenBefore cs),
                           posInFirst = 0, posInSecond = 0, posInResult = 0\<rparr>))"

text \<open>\<^verbatim>\<open>Transform\<close> reads \<^verbatim>\<open>other\<close> without a nil check; the argument is a ChangeSet.\<close>

definition Transform :: "ChangeSet \<Rightarrow> ChangeSet \<Rightarrow> ChangeSet" where
  "Transform cs other =
     (if IsEmpty cs then other
      else if IsEmpty other then cs
      else Compose cs (Some other))"

text \<open>
  unnamed/part_006 holds a \<^verbatim>\<open>Compose\<close> of its own, which its comment calls a simplified
  composition: it replays the receiver's operations and then the argument's on a fresh
  ChangeSet. It returns \<^verbatim>\<open>other\<close> itself, nil or not, when the receiver is empty.
\<close>

fun replay :: "ChangeSet \<Rightarrow> Operation \<Rightarrow> ChangeSet" where
  "replay result' (OpRetain n) = Retain result' n"
| "replay result' (OpDelete n) = Delete result' n"
| "replay result' (OpInsert t) = Insert result' t"

definition Compose_simplified :: "ChangeSet \<Rightarrow> ChangeSet option \<Rightarrow> ChangeSet option" where
  "Compose_simplified cs other =
     (if IsEmpty cs then other
      else
        (case other of
           None \<Rightarrow> Some cs
         | Some other' \<Rightarrow>
             if IsEmpty other' then Some cs
             else Some (foldl replay (foldl replay (NewChangeSet (lenBefore cs)) (operations cs))
                          (operations other'))))"

subsection \<open>Position mapping (pkg/rope/history.go, pkg/rope/transaction_advanced.go)\<close>

datatype Assoc =
  AssocBefore | AssocAfter | AssocBeforeWord | AssocAfterWord | AssocBeforeSticky
  | AssocAfterSticky

fun cs_applyAssociation :: "int \<Rightarrow> Assoc \<Rightarrow> int \<Rightarrow> int \<Rightarrow> int \<Rightarrow> int" where
  "cs_applyAssociation newPos AssocBefore opStart opLength targetPos = newPos"
| "cs_applyAssociation newPos AssocAfter opStart opLength targetPos = newPos + opLength"
| "cs_applyAssociation newPos AssocBeforeSticky opStart opLength targetPos =
     newPos + (if targetPos - opStart > opLength then opLength else targetPos - opStart)"
| "cs_applyAssociation newPos AssocAfterSticky opStart opLength targetPos =
     newPos + (if targetPos - opStart > opLength then opLength else targetPos - opStart)"
| "cs_applyAssociation newPos _ opStart opLength targetPos = newPos"

text \<open>
  The loop of \<^verbatim>\<open>MapPosition\<close>: each case either returns or updates \<^verbatim>\<open>currentPos\<close> and
  \<^verbatim>\<open>newPos\<close>; after the switch the loop is left when \<^verbatim>\<open>currentPos >= pos\<close>.
\<close>

fun MapPosition_ops :: "Operation list \<Rightarrow> int \<Rightarrow> Assoc \<Rightarrow> int \<Rightarrow> int \<Rightarrow> int" where
  "MapPosition_ops [] pos assoc currentPos newPos = newPos"
| "MapPosition_ops (OpRetain n # ops) pos assoc currentPos newPos =
     (if currentPos + n > pos
      then cs_applyAssociation (newPos + (pos - currentPos)) assoc currentPos n pos
      else if currentPos + n \<ge> pos then newPos + n
      else MapPosition_ops ops pos assoc (currentPos + n) (newPos + n))"
| "MapPosition_ops (OpDelete n # ops) pos assoc currentPos newPos =
     (if currentPos + n > pos
      then cs_applyAssociation newPos assoc currentPos n pos
      else if currentPos + n \<ge> pos then newPos
      else MapPosition_ops ops pos assoc (currentPos + n) newPos)"
| "MapPosition_ops (OpInsert t # ops) pos assoc currentPos newPos =
     (if currentPos \<ge> pos
      then cs_applyAssociation newPos assoc currentPos (runeCount t) pos
      else if currentPos \<ge> pos then newPos + runeCount t
      else MapPosition_ops ops pos assoc currentPos (newPos + runeCount t))"

definition MapPosition :: "ChangeSet \<Rightarrow> int \<Rightarrow> Assoc \<Rightarrow> int" where
  "MapPosition cs pos assoc =
     (if pos < 0 \<or> pos > lenBefore cs then pos
      else MapPosition_ops (operations cs) pos assoc 0 0)"

definition ChangeSet_MapPositions :: "ChangeSet \<Rightarrow> int list \<Rightarrow> Assoc list \<Rightarrow> failure + int list" where
  "ChangeSet_MapPositions cs positions associations =
     (if length positions \<noteq> length associations
      then Inl (Panic ''positions and associations must have same length'')
      else Inr (map (\<lambda>(pos, assoc). MapPosition cs pos assoc) (zip positions associations)))"

record Position =
  Pos :: int
  Assoc :: Assoc
  Offset :: int

text \<open>
  text_word_boundary.go is not among the sources: the two methods of \<^verbatim>\<open>WordBoundary\<close>
  that the mapper calls are parameters. \<^verbatim>\<open>NewPositionMapper\<close> leaves the word boundary nil.
\<close>

record WordBoundary =
  PrevWordStart :: "int \<Rightarrow> int"
  NextWordStart :: "int \<Rightarrow> int"

record PositionMapper =
  changeset :: ChangeSet
  positions :: "Position list"
  wordBoundary :: "WordBoundary option"

definition NewPositionMapper :: "ChangeSet \<Rightarrow> PositionMapper" where
  "NewPositionMapper cs = \<lparr>changeset = cs, positions = [], wordBoundary = None\<rparr>"

definition AddPosition :: "PositionMapper \<Rightarrow> int \<Rightarrow> Assoc \<Rightarrow> PositionMapper" where
  "AddPosition pm pos assoc =
     pm\<lparr>positions := positions pm @ [\<lparr>Pos = pos, Assoc = assoc, Offset = 0\<rparr>]\<rparr>"

fun isSorted_from :: "Position list \<Rightarrow> bool" where
  "isSorted_from (p # q # ps) = (if Pos q < Pos p then False else isSorted_from (q # ps))"
| "isSorted_from _ = True"

definition isSorted :: "PositionMapper \<Rightarrow> bool" where
  "isSorted pm = isSorted_from (positions pm)"

text \<open>
  \<^verbatim>\<open>advanceTo\<close> walks all operations from the first one, updating the caller's
  \<^verbatim>\<open>pos\<close> through the pointer; the model returns the pair of \<^verbatim>\<open>pos\<close> and \<^verbatim>\<open>newPos\<close>.
\<close>

fun advanceTo_ops :: "Operation list \<Rightarrow> int \<Rightarrow> int \<Rightarrow> int \<Rightarrow> int \<times> int" where
  "advanceTo_ops [] target pos newPos = (pos, newPos)"
| "advanceTo_ops (OpRetain n # ops) target pos newPos =
     (if pos + n \<ge> target then (pos + (target - pos), newPos + (target - pos))
      else if pos + n \<ge> target then (pos + n, newPos + n)
      else advanceTo_ops ops target (pos + n) (newPos + n))"
| "advanceTo_ops (OpDelete n # ops) target pos newPos =
     (if pos + n \<ge> target then (pos + n, newPos)
      else advanceTo_ops ops target (pos + n) newPos)"
| "advanceTo_ops (OpInsert t # ops) target pos newPos =
     (if pos \<ge> target then (pos, newPos + runeCount t)
      else advanceTo_ops ops target pos (newPos + runeCount t))"

definition advanceTo :: "PositionMapper \<Rightarrow> int \<Rightarrow> int \<Rightarrow> int \<Rightarrow> int \<times> int" where
  "advanceTo pm target pos newPos = advanceTo_ops (operations (changeset pm)) target pos newPos"

definition applyAfterAssociation :: "PositionMapper \<Rightarrow> int \<Rightarrow> int \<Rightarrow> int \<Rightarrow> int" where
  "applyAfterAssociation pm oldPos newPos currentPos = newPos"

definition pm_applyAssociation :: "PositionMapper \<Rightarrow> Position \<Rightarrow> int \<Rightarrow> int \<Rightarrow> int \<Rightarrow> int" where
  "pm_applyAssociation pm position oldPos newPos currentPos =
     (case Assoc position of
        AssocBefore \<Rightarrow> newPos
      | AssocAfter \<Rightarrow> applyAfterAssociation pm oldPos newPos currentPos
      | AssocBeforeWord \<Rightarrow>
          (case wordBoundary pm of Some wb \<Rightarrow> PrevWordStart wb newPos | None \<Rightarrow> newPos)
      | AssocAfterWord \<Rightarrow>
          (case wordBoundary pm of Some wb \<Rightarrow> NextWordStart wb newPos | None \<Rightarrow> newPos)
      | AssocBeforeSticky \<Rightarrow> newPos + Offset position
      | AssocAfterSticky \<Rightarrow> newPos + Offset position)"

text \<open>
  The inner loop of \<^verbatim>\<open>mapSorted\<close> repeats \<^verbatim>\<open>advanceTo\<close> while \<^verbatim>\<open>pos\<close> is below the
  position and below \<^verbatim>\<open>lenBefore\<close>; nothing bounds the number of rounds, so the loop is
  a partial function and \<open>None\<close> stands for a run that does not end.
\<close>

partial_function (option) mapSorted_advance ::
  "PositionMapper \<Rightarrow> int \<Rightarrow> int \<times> int \<Rightarrow> (int \<times> int) option" where
  "mapSorted_advance pm oldPos st =
     (if fst st < oldPos \<and> fst st < lenBefore (changeset pm)
      then (if length (operations (changeset pm)) = 0 then Some st
            else mapSorted_advance pm oldPos (advanceTo pm oldPos (fst st) (snd st)))
      else Some st)"

fun mapSorted_from :: "PositionMapper \<Rightarrow> Position list \<Rightarrow> int \<times> int \<Rightarrow> int list option" where
  "mapSorted_from pm [] st = Some []"
| "mapSorted_from pm (position # rest) st =
     (case mapSorted_advance pm (Pos position) st of
        None \<Rightarrow> None
      | Some st' \<Rightarrow>
          (case mapSorted_from pm rest st' of
             None \<Rightarrow> None
           | Some mapped \<Rightarrow>
               Some (pm_applyAssociation pm position (Pos position) (snd st') (fst st')
                     # mapped)))"

definition mapSorted :: "PositionMapper \<Rightarrow> int list option" where
  "mapSorted pm = mapSorted_from pm (positions pm) (0, 0)"

fun mapSinglePosition_ops ::
  "PositionMapper \<Rightarrow> Position \<Rightarrow> Operation list \<Rightarrow> int \<Rightarrow> int \<Rightarrow> int" where
  "mapSinglePosition_ops pm position [] pos newPos = newPos"
| "mapSinglePosition_ops pm position (OpRetain n # ops) pos newPos =
     (if pos + n \<ge> Pos position
      then pm_applyAssociation pm position (Pos position) (newPos + (Pos position - pos))
             (Pos position)
      else if pos + n \<ge> Pos position then newPos + n
      else mapSinglePosition_ops pm position ops (pos + n) (newPos + n))"
| "mapSinglePosition_ops pm position (OpDelete n # ops) pos newPos =
     (if pos + n \<ge> Pos position
      then pm_applyAssociation pm position (Pos position) newPos pos
      else if pos + n \<ge> Pos position then newPos
      else mapSinglePosition_ops pm position ops (pos + n) newPos)"
| "mapSinglePosition_ops pm position (OpInsert t # ops) pos newPos =
     (if pos \<ge> Pos position
      then pm_applyAssociation pm position (Pos position) newPos pos
      else if pos \<ge> Pos position then newPos + runeCount t
      else mapSinglePosition_ops pm position ops pos (newPos + runeCount t))"

definition mapSinglePosition :: "PositionMapper \<Rightarrow> Position \<Rightarrow> int" where
  "mapSinglePosition pm position =
     mapSinglePosition_ops pm position (operations (changeset pm)) 0 0"

definition mapUnsorted :: "PositionMapper \<Rightarrow> int list" where
  "mapUnsorted pm = map (mapSinglePosition pm) (positions pm)"

definition Map :: "PositionMapper \<Rightarrow> int list option" where
  "Map pm =
     (if length (positions pm) = 0 then Some []
      else if isSorted pm then mapSorted pm
      else Some (mapUnsorted pm))"

definition MapPositions :: "ChangeSet \<Rightarrow> int list \<Rightarrow> Assoc \<Rightarrow> int list option" where
  "MapPositions cs poss assoc =
     Map (foldl (\<lambda>mapper pos. AddPosition mapper pos assoc) (NewPositionMapper cs) poss)"

section \<open>History (pkg/rope/history.go)\<close>

text \<open>
  A Transaction holds its changeset (a pointer, nil is \<open>None\<close>) and a timestamp; the
  timestamp is the wall clock's and is left out, as is the mutex of the History: the
  model is one caller's sequence of calls.
\<close>

datatype Transaction = Transaction (Changeset: "ChangeSet option")

definition NewTransaction :: "ChangeSet option \<Rightarrow> Transaction" where
  "NewTransaction cs = Transaction cs"

definition Transaction_IsEmpty :: "Transaction option \<Rightarrow> bool" where
  "Transaction_IsEmpty t =
     (case t of
        None \<Rightarrow> True
      | Some t' \<Rightarrow> (case Changeset t' of None \<Rightarrow> True | Some cs \<Rightarrow> IsEmpty cs))"

definition Transaction_Invert :: "Transaction option \<Rightarrow> RopeNode option \<Rightarrow> failure + Transaction" where
  "Transaction_Invert t original =
     (case t of
        None \<Rightarrow> Inr (NewTransaction (Some (NewChangeSet 0)))
      | Some t' \<Rightarrow>
          (case Changeset t' of
             None \<Rightarrow> Inr (NewTransaction (Some (NewChangeSet 0)))
           | Some cs \<Rightarrow>
               (case Invert cs original of
                  Inl e \<Rightarrow> Inl e
                | Inr inverted \<Rightarrow> Inr (NewTransaction (Some inverted)))))"

record Revision =
  parent :: int
  lastChild :: int
  transaction :: Transaction
  inversion :: Transaction

record History =
  revisions :: "Revision list"
  current :: int
  maxSize :: int

definition NewHistory :: History where
  "NewHistory = \<lparr>revisions = [], current = -1, maxSize = 1000\<rparr>"

text \<open>
  \<^verbatim>\<open>prune\<close>: \<open>rebase\<close> is the body of its loop over the kept revisions, which
  subtracts \<^verbatim>\<open>newRoot\<close> from a parent and a last child that are not negative.
\<close>

definition rebase :: "int \<Rightarrow> Revision \<Rightarrow> Revision" where
  "rebase newRoot rv =
     rv\<lparr>parent := (if parent rv \<ge> 0 then parent rv - newRoot else parent rv),
        lastChild := (if lastChild rv \<ge> 0 then lastChild rv - newRoot else lastChild rv)\<rparr>"

definition prune :: "History \<Rightarrow> History" where
  "prune h =
     (if maxSize h \<le> 0 then h
      else if int (length (revisions h)) \<le> maxSize h then h
      else
        (let excess = int (length (revisions h)) - maxSize h;
             newRoot = (if excess \<ge> int (length (revisions h))
                        then int (length (revisions h)) - 1 else excess);
             kept = map (rebase newRoot) (drop (nat newRoot) (revisions h));
             cur = current h - newRoot
         in h\<lparr>revisions := kept, current := (if cur < -1 then -1 else cur)\<rparr>))"

definition SetMaxSize :: "History \<Rightarrow> int \<Rightarrow> History" where
  "SetMaxSize h size' = prune (h\<lparr>maxSize := size'\<rparr>)"

definition CommitRevision ::
  "History \<Rightarrow> Transaction option \<Rightarrow> RopeNode option \<Rightarrow> failure + History" where
  "CommitRevision h t original =
     (case t of
        None \<Rightarrow> Inr h
      | Some t' \<Rightarrow>
          if Transaction_IsEmpty t then Inr h
          else
            (case Transaction_Invert t original of
               Inl e \<Rightarrow> Inl e
             | Inr inverted \<Rightarrow>
                 (let revision = \<lparr>parent = current h, lastChild = -1,
                                  transaction = t', inversion = inverted\<rparr>;
                      revs = revisions h @ [revision];
                      newIndex = int (length revs) - 1;
                      revs' = (if current h \<ge> 0 \<and> current h < int (length revs) - 1
                               then revs[nat (current h) :=
                                      (revs ! nat (current h))\<lparr>lastChild := newIndex\<rparr>]
                               else revs)
                  in Inr (prune (h\<lparr>revisions := revs', current := newIndex\<rparr>)))))"

text \<open>
  \<^verbatim>\<open>Undo\<close> and \<^verbatim>\<open>Redo\<close> index the revisions with \<^verbatim>\<open>h.current\<close>; an index outside
  the slice is Go's run-time panic.
\<close>

definition Undo :: "History \<Rightarrow> failure + History \<times> Transaction option" where
  "Undo h =
     (if current h < 0 then Inr (h, None)
      else if current h \<ge> int (length (revisions h))
      then Inl (Panic ''index out of range'')
      else Inr (h\<lparr>current := parent (revisions h ! nat (current h))\<rparr>,
                Some (inversion (revisions h ! nat (current h)))))"

definition Redo :: "History \<Rightarrow> failure + History \<times> Transaction option" where
  "Redo h =
     (if current h = -1 then
        (if length (revisions h) = 0 then Inr (h, None)
         else Inr (h\<lparr>current := 0\<rparr>, Some (transaction (revisions h ! 0))))
      else if current h \<ge> int (length (revisions h)) then Inr (h, None)
      else if current h < 0 then Inl (Panic ''index out of range'')
      else if lastChild (revisions h ! nat (current h)) < 0 then Inr (h, None)
      else if lastChild (revisions h ! nat (current h)) \<ge> int (length (revisions h))
      then Inl (Panic ''index out of range'')
      else Inr (h\<lparr>current := lastChild (revisions h ! nat (current h))\<rparr>,
                Some (transaction
                        (revisions h ! nat (lastChild (revisions h ! nat (current h)))))))"

text \<open>
  The property of the spec: the revision at index \<open>i\<close> has no dangling parent when its
  parent is -1 or the index of an earlier revision.
\<close>

definition parentValid :: "Revision list \<Rightarrow> nat \<Rightarrow> bool" where
  "parentValid revs i =
     (parent (revs ! i) = -1 \<or> (0 \<le> parent (revs ! i) \<and> parent (revs ! i) < int i))"

section \<open>Line operations, slicing (pkg/rope/line_ops.go, pkg/rope/string_optimized.go)\<close>

text \<open>
  Modelled from the spec: the rune iterator (iterator.go) and the chunk iterator
  (chunk_ops.go) are not among the sources. The rune iterator yields the characters of the
  rope in order and reports, after the \<open>k\<close>-th step, the position \<open>k\<close>; the chunk iterator
  yields the leaves in order. The newline is the rune 10.
\<close>

definition newline :: rune where
  "newline = 10"

definition LineCount :: "RopeNode \<Rightarrow> int" where
  "LineCount r =
     (if Rope_Length r = 0 then 0
      else
        (let content = Rope_String r;
             count = int (count_list content newline)
         in if \<not> (content \<noteq> [] \<and> last content = newline) then count + 1 else count))"

fun LineStart_scan :: "gostring \<Rightarrow> int \<Rightarrow> int \<Rightarrow> int \<Rightarrow> int option" where
  "LineStart_scan [] position currentLine lineNum = None"
| "LineStart_scan (c # cs) position currentLine lineNum =
     (if c = newline
      then (if currentLine + 1 = lineNum then Some (position + 1)
            else LineStart_scan cs (position + 1) (currentLine + 1) lineNum)
      else LineStart_scan cs (position + 1) currentLine lineNum)"

definition LineStart :: "RopeNode \<Rightarrow> int \<Rightarrow> failure + int" where
  "LineStart r lineNum =
     (if lineNum < 0 \<or> lineNum \<ge> LineCount r then Inl (Panic ''line number out of bounds'')
      else if lineNum = 0 then Inr 0
      else
        (case LineStart_scan (Rope_String r) 0 0 lineNum of
           Some p \<Rightarrow> Inr p
         | None \<Rightarrow> Inr (Rope_Length r)))"

fun LineAtChar_scan :: "gostring \<Rightarrow> int \<Rightarrow> int \<Rightarrow> int \<Rightarrow> int" where
  "LineAtChar_scan [] i pos lineNum = lineNum"
| "LineAtChar_scan (c # cs) i pos lineNum =
     (if i \<le> pos
      then LineAtChar_scan cs (i + 1) pos (if c = newline then lineNum + 1 else lineNum)
      else lineNum)"

definition LineAtChar :: "RopeNode \<Rightarrow> int \<Rightarrow> failure + int" where
  "LineAtChar r pos =
     (if pos < 0 \<or> pos > Rope_Length r then Inl (Panic ''character position out of bounds'')
      else if pos = 0 then Inr 0
      else Inr (LineAtChar_scan (Rope_String r) 0 pos 0))"

text \<open>
  The loop of \<^verbatim>\<open>SliceOptimized\<close> over the chunks, with \<^verbatim>\<open>charsToSkip\<close>,
  \<^verbatim>\<open>charsToCollect\<close> and the builder's content.
\<close>

fun SliceOptimized_chunks :: "gostring list \<Rightarrow> int \<Rightarrow> int \<Rightarrow> gostring \<Rightarrow> gostring" where
  "SliceOptimized_chunks [] charsToSkip charsToCollect b = b"
| "SliceOptimized_chunks (chunk # chunks) charsToSkip charsToCollect b =
     (if \<not> charsToCollect > 0 then b
      else if charsToSkip > 0 \<and> int (length chunk) \<le> charsToSkip
      then SliceOptimized_chunks chunks (charsToSkip - int (length chunk)) charsToCollect b
      else
        (let chunk' = (if charsToSkip > 0 then drop (nat charsToSkip) chunk else chunk);
             charsToSkip' = (if charsToSkip > 0 then 0 else charsToSkip)
         in if int (length chunk) \<le> charsToCollect
            then SliceOptimized_chunks chunks charsToSkip'
                   (charsToCollect - int (length chunk)) (b @ chunk')
            else b @ take (nat charsToCollect) chunk))"

text \<open>
  \<^verbatim>\<open>SliceOptimized\<close>. The first argument is the width in bits of Go's \<^verbatim>\<open>int\<close> on the
  platform (32 or 64), which the source leaves to the compiler. After the guard,
  \<^verbatim>\<open>estimatedSize := r.size * (end - start) / r.length\<close> multiplies two \<^verbatim>\<open>int\<close>s, so the
  product wraps around, and divides truncating toward zero; \<^verbatim>\<open>b.Grow(estimatedSize)\<close>
  reserves capacity, and \<^verbatim>\<open>strings.Builder.Grow\<close> panics on a negative count. The capacity
  has no effect on the string built.
\<close>

definition SliceOptimized ::
  "nat \<Rightarrow> RopeNode option \<Rightarrow> int \<Rightarrow> int \<Rightarrow> failure + gostring" where
  "SliceOptimized bits r start end' =
     (case r of
        None \<Rightarrow> Inr []
      | Some rope \<Rightarrow>
          if start < 0 \<or> end' > Rope_Length rope \<or> start > end'
          then Inl (Panic ''slice bounds out of range'')
          else if start = end' then Inr []
          else
            (let estimatedSize =
                   goDiv (wrapInt bits (Rope_Size rope * (end' - start))) (Rope_Length rope)
             in if estimatedSize < 0 then Inl (Panic ''strings.Builder.Grow: negative count'')
                else Inr (SliceOptimized_chunks (Rope_Chunks rope) start (end' - start) [])))"

definition isTypedError :: "failure + 'a \<Rightarrow> bool" where
  "isTypedError x = (case x of Inl (Panic msg) \<Rightarrow> False | Inl e \<Rightarrow> True | Inr v \<Rightarrow> False)"

subsection \<open>LinesIterator\<close>

record LinesIterator =
  rope :: RopeNode
  lineNum :: int
  totalLines :: int

definition Rope_LinesIterator :: "RopeNode \<Rightarrow> LinesIterator" where
  "Rope_LinesIterator r = \<lparr>rope = r, lineNum = 0, totalLines = LineCount r\<rparr>"

definition Next :: "LinesIterator \<Rightarrow> LinesIterator \<times> bool" where
  "Next it = (it\<lparr>lineNum := lineNum it + 1\<rparr>, lineNum it + 1 < totalLines it)"

definition LineNumber :: "LinesIterator \<Rightarrow> int" where
  "LineNumber it = lineNum it"

definition Reset :: "LinesIterator \<Rightarrow> LinesIterator" where
  "Reset it = it\<lparr>lineNum := -1\<rparr>"

text \<open>
  The caller's loop \<^verbatim>\<open>for it.Next() { ... it.LineNumber() ... }\<close>: the line numbers at
  which the body runs.
\<close>

function yielded :: "LinesIterator \<Rightarrow> int list" where
  "yielded it =
     (if snd (Next it) then LineNumber (fst (Next it)) # yielded (fst (Next it)) else [])"
  by pat_completeness auto
termination
  by (relation "measure (\<lambda>it. nat (totalLines it - lineNum it))") (auto simp: Next_def)

declare yielded.simps [simp del]

section \<open>Content hash (hash.go, as quoted in pkg/rope/iterator_interfaces.go)\<close>

text \<open>
  \<^verbatim>\<open>HashCode32\<close> writes each byte of the rope's byte iterator into Go's \<^verbatim>\<open>fnv.New32a\<close>
  (FNV-1a: exclusive-or with the byte, then multiplication by the prime, in 32 bits) and
  returns the sum; \<^verbatim>\<open>HashCode64\<close> does the same in 64 bits.

  Modelled from the spec: the byte iterator (bytes_iter.go) and \<^verbatim>\<open>Equals\<close> (rope.go) are
  not among the sources. The byte iterator yields the bytes of the leaves in leaf order,
  each leaf's text in UTF-8; \<open>equals\<close> is true iff the textual content is equal.
\<close>

definition IterBytes :: "RopeNode \<Rightarrow> 8 word list" where
  "IterBytes r = concat (map (\<lambda>leaf. concat (map utf8Encode leaf)) (Rope_Chunks r))"

definition fnv32a_Write :: "32 word \<Rightarrow> 8 word \<Rightarrow> 32 word" where
  "fnv32a_Write hash b = (hash XOR ucast b) * 16777619"

definition HashCode32 :: "RopeNode \<Rightarrow> 32 word" where
  "HashCode32 r = foldl fnv32a_Write 2166136261 (IterBytes r)"

definition HashCode :: "RopeNode \<Rightarrow> 32 word" where
  "HashCode r = HashCode32 r"

definition fnv64a_Write :: "64 word \<Rightarrow> 8 word \<Rightarrow> 64 word" where
  "fnv64a_Write hash b = (hash XOR ucast b) * 1099511628211"

definition HashCode64 :: "RopeNode \<Rightarrow> 64 word" where
  "HashCode64 r = foldl fnv64a_Write 14695981039346656037 (IterBytes r)"

definition Equals :: "RopeNode \<Rightarrow> RopeNode \<Rightarrow> bool" where
  "Equals r other = (Rope_String r = Rope_String other)"

section \<open>The meaning of a changeset on texts\<close>

text \<open>
  ASCII literals as Go strings, and the reading of a list of operations on the part of
  the document that lies after the cursor: \<open>run\<close> returns the text put out and the part
  left over, \<open>fits\<close> says that no count is negative or reaches past the end, and
  \<open>mirror\<close> is the inversion in the spec's words: Retain to Retain, Insert to a Delete of
  its length, Delete to an Insert of the text taken from the document.
\<close>

definition runes :: "string \<Rightarrow> gostring" where
  "runes s = map of_char s"

fun run :: "Operation list \<Rightarrow> gostring \<Rightarrow> gostring \<times> gostring" where
  "run [] rest = ([], rest)"
| "run (OpRetain n # ops) rest =
     (take (nat n) rest @ fst (run ops (drop (nat n) rest)), snd (run ops (drop (nat n) rest)))"
| "run (OpDelete n # ops) rest = run ops (drop (nat n) rest)"
| "run (OpInsert t # ops) rest = (t @ fst (run ops rest), snd (run ops rest))"

fun fits :: "Operation list \<Rightarrow> gostring \<Rightarrow> bool" where
  "fits [] rest = True"
| "fits (OpRetain n # ops) rest =
     (0 \<le> n \<and> n \<le> int (length rest) \<and> fits ops (drop (nat n) rest))"
| "fits (OpDelete n # ops) rest =
     (0 \<le> n \<and> n \<le> int (length rest) \<and> fits ops (drop (nat n) rest))"
| "fits (OpInsert t # ops) rest = fits ops rest"


section \<open>Length accounting of the builder\<close>

lemma foldl_call_lenAfter:
  "lenAfter (foldl call cs calls) =
     lenAfter cs - sum_list (map deletedLength calls) + sum_list (map insertedRunes calls)"
proof (induction calls arbitrary: cs)
  case Nil
  show ?case by simp
next
  case (Cons c calls)
  show ?case
    by (cases c) (simp_all add: Cons.IH Retain_def Delete_def Insert_def)
qed

lemma foldl_call_lenBefore: "lenBefore (foldl call cs calls) = lenBefore cs"
proof (induction calls arbitrary: cs)
  case Nil
  show ?case by simp
next
  case (Cons c calls)
  show ?case
    by (cases c) (simp_all add: Cons.IH Retain_def Delete_def Insert_def)
qed

text \<open>
  C5, as stated, fails: inserting the one-rune text U+1F600 into a fresh ChangeSet of base
  length 0 gives \<open>lenAfter = 1\<close>, while the text measures 2 UTF-16 code units.
\<close>

theorem C5_utf16_accounting_counterexample:
  "lenAfter (build 0 [CallInsert [0x1F600]]) \<noteq>
     lenBefore (build 0 [CallInsert [0x1F600]])
       - sum_list (map deletedLength [CallInsert [0x1F600]])
       + sum_list (map insertedUTF16 [CallInsert [0x1F600]]) \<and>
   lenAfter (build 0 [CallInsert [0x1F600]]) = 1 \<and>
   utf16Count [0x1F600] = 2"
  by (simp add: build_def NewChangeSet_def Insert_def runeCount_def utf16Count_def utf16Units_def)

text \<open>
  C5, amended: for every ChangeSet built from a base length \<open>n\<close> by any sequence of
  Retain, Delete and Insert calls that stays within the range of Go's \<^verbatim>\<open>int\<close> (of 32 or
  64 bits, or any other width), \<open>lenAfter\<close> equals \<open>lenBefore\<close> minus the sum of the
  deleted lengths plus the sum of the inserted texts' lengths measured in runes (Unicode
  scalars), and \<open>lenBefore\<close> stays the base length; inserting a single rune, in the Basic
  Multilingual Plane or not, increases \<open>lenAfter\<close> by 1 when that sum is in the range.
\<close>

theorem C5_rune_accounting:
  "(inIntRange bits n \<and> withinIntRange bits (NewChangeSet n) calls \<longrightarrow>
      lenAfter (build n calls) =
        lenBefore (build n calls) - sum_list (map deletedLength calls)
          + sum_list (map insertedRunes calls) \<and>
      lenBefore (build n calls) = n) \<and>
   (inIntRange bits (lenAfter cs) \<and> inIntRange bits (lenAfter cs + 1) \<longrightarrow>
      lenAfter (Insert cs [c]) = lenAfter cs + 1)"
  by (simp add: build_def foldl_call_lenAfter foldl_call_lenBefore NewChangeSet_def
      Insert_def runeCount_def)

theorem C5_rune_accounting_witness:
  "inIntRange 64 3 \<and>
   withinIntRange 64 (NewChangeSet 3) [CallRetain 2, CallDelete 1, CallInsert [0x1F600]] \<and>
   lenAfter (build 3 [CallRetain 2, CallDelete 1, CallInsert [0x1F600]]) = 3 \<and>
   lenBefore (build 3 [CallRetain 2, CallDelete 1, CallInsert [0x1F600]]) = 3 \<and>
   inIntRange 64 (lenAfter (NewChangeSet 0)) \<and>
   inIntRange 64 (lenAfter (NewChangeSet 0) + 1) \<and>
   lenAfter (Insert (NewChangeSet 0) [0x1F600]) = 1"
proof -
  have a: "inIntRange 64 3"
    by (simp add: inIntRange_def)
  have b: "withinIntRange 64 (NewChangeSet 3)
             [CallRetain 2, CallDelete 1, CallInsert [0x1F600]]"
    by (simp add: inIntRange_def NewChangeSet_def Retain_def Delete_def Insert_def
        runeCount_def)
  have c: "inIntRange 64 (lenAfter (NewChangeSet 0))"
    "inIntRange 64 (lenAfter (NewChangeSet 0) + 1)"
    by (simp_all add: inIntRange_def NewChangeSet_def)
  have d: "lenAfter (NewChangeSet 0) = 0"
    by (simp add: NewChangeSet_def)
  from C5_rune_accounting[where bits = 64 and n = 3
      and calls = "[CallRetain 2, CallDelete 1, CallInsert [0x1F600]]"
      and cs = "NewChangeSet 0" and c = "0x1F600"] a b c
  have "lenAfter (build 3 [CallRetain 2, CallDelete 1, CallInsert [0x1F600]]) =
          lenBefore (build 3 [CallRetain 2, CallDelete 1, CallInsert [0x1F600]])
            - sum_list (map deletedLength [CallRetain 2, CallDelete 1, CallInsert [0x1F600]])
            + sum_list (map insertedRunes [CallRetain 2, CallDelete 1, CallInsert [0x1F600]])"
    "lenBefore (build 3 [CallRetain 2, CallDelete 1, CallInsert [0x1F600]]) = 3"
    "lenAfter (Insert (NewChangeSet 0) [0x1F600]) = lenAfter (NewChangeSet 0) + 1"
    by blast+
  with a b c d show ?thesis
    by (simp add: runeCount_def)
qed

section \<open>Apply and Invert on the rope's content\<close>

lemmas cs_defs = NewChangeSet_def Retain_def Delete_def Insert_def IsEmpty_def runeCount_def
lemmas rope_defs = Rope_Insert_def Rope_Delete_def Rope_Slice_def errInsertOutOfBounds_def
  errDeleteOutOfBounds_def errSliceOutOfBounds_def Rope_Length_def Rope_String_def
lemmas apply_defs = Apply_def fuse_def fuse_step_def
lemmas compose_defs = Compose_def compose_def copyOf_def buildPositionMap_def Transform_def
  Compose_simplified_def

lemma Rope_String_Internal: "Rope_String (InternalNode a b) = Rope_String a @ Rope_String b"
  by (simp add: Rope_String_def)

lemma Rope_Split_String:
  "Rope_String (fst (Rope_Split r n)) = take n (Rope_String r) \<and>
   Rope_String (snd (Rope_Split r n)) = drop n (Rope_String r)"
proof (induction r arbitrary: n)
  case (LeafNode t)
  show ?case by (simp add: Rope_String_def)
next
  case (InternalNode l r)
  have l: "Rope_String (fst (Rope_Split l n)) = take n (Rope_String l)"
    "Rope_String (snd (Rope_Split l n)) = drop n (Rope_String l)"
    using InternalNode.IH(1) by simp_all
  have r: "Rope_String (fst (Rope_Split r (n - length (Rope_String l)))) = take (n - length (Rope_String l)) (Rope_String r)"
    "Rope_String (snd (Rope_Split r (n - length (Rope_String l)))) = drop (n - length (Rope_String l)) (Rope_String r)"
    using InternalNode.IH(2) by simp_all
  show ?case
    by (simp add: Rope_String_Internal l r)
qed

lemma Rope_Insert_ok:
  assumes "Rope_String r = pre @ rest" and "pos = int (length pre)"
  shows "\<exists>r'. Rope_Insert r pos t = Inr r' \<and> Rope_String r' = pre @ t @ rest"
  using assms
  by (simp add: Rope_Insert_def errInsertOutOfBounds_def Rope_Length_def
      Rope_String_Internal Rope_Split_String Rope_String_def[of "LeafNode t"])

lemma Rope_Delete_ok:
  assumes "Rope_String r = pre @ rest" and "pos = int (length pre)"
    and "0 \<le> n" and "n \<le> int (length rest)"
  shows "\<exists>r'. Rope_Delete r pos (pos + n) = Inr r' \<and> Rope_String r' = pre @ drop (nat n) rest"
  using assms
  by (simp add: Rope_Delete_def errDeleteOutOfBounds_def Rope_Length_def
      Rope_String_Internal Rope_Split_String nat_add_distrib)


lemma apply_ops_run:
  assumes "fits ops rest" and "Rope_String r = pre @ rest" and "pos = int (length pre)"
  shows "\<exists>r'. apply_ops ops r pos = Inr r' \<and>
           Rope_String r' = pre @ fst (run ops rest) @ snd (run ops rest)"
  using assms
proof (induction ops arbitrary: r pre rest pos)
  case Nil
  then show ?case by simp
next
  case (Cons op ops)
  show ?case
  proof (cases op)
    case (OpRetain n)
    with Cons.prems have n: "0 \<le> n" "n \<le> int (length rest)" and f: "fits ops (drop (nat n) rest)"
      by simp_all
    have s: "Rope_String r = (pre @ take (nat n) rest) @ drop (nat n) rest"
      using Cons.prems(2) by simp
    have p: "pos + n = int (length (pre @ take (nat n) rest))"
      using Cons.prems(3) n by simp
    from Cons.IH[OF f s p] show ?thesis
      using OpRetain by simp
  next
    case (OpDelete n)
    with Cons.prems have n: "0 \<le> n" "n \<le> int (length rest)" and f: "fits ops (drop (nat n) rest)"
      by simp_all
    from Rope_Delete_ok[OF Cons.prems(2) Cons.prems(3) n]
    obtain r1 where r1: "Rope_Delete r pos (pos + n) = Inr r1"
      "Rope_String r1 = pre @ drop (nat n) rest" by blast
    from Cons.IH[OF f r1(2) Cons.prems(3)] show ?thesis
      using OpDelete r1(1) by simp
  next
    case (OpInsert t)
    with Cons.prems have f: "fits ops rest" by simp
    from Rope_Insert_ok[OF Cons.prems(2) Cons.prems(3), of t]
    obtain r1 where r1: "Rope_Insert r pos t = Inr r1"
      "Rope_String r1 = (pre @ t) @ rest" by auto
    have p: "pos + runeCount t = int (length (pre @ t))"
      using Cons.prems(3) by (simp add: runeCount_def)
    from Cons.IH[OF f r1(2) p] show ?thesis
      using OpInsert r1(1) by simp
  qed
qed


lemma run_append:
  "run (xs @ ys) rest =
     (fst (run xs rest) @ fst (run ys (snd (run xs rest))), snd (run ys (snd (run xs rest))))"
proof (induction xs arbitrary: rest)
  case Nil
  show ?case by simp
next
  case (Cons op xs)
  show ?case by (cases op) (simp_all add: Cons.IH)
qed

lemma fits_append: "fits (xs @ ys) rest = (fits xs rest \<and> fits ys (snd (run xs rest)))"
proof (induction xs arbitrary: rest)
  case Nil
  show ?case by simp
next
  case (Cons op xs)
  show ?case by (cases op) (auto simp add: Cons.IH)
qed

lemma merge_pair:
  assumes "sameOpType l op" and "fits [l, op] rest"
  shows "fits [mergeOp l op] rest \<and> run [mergeOp l op] rest = run [l, op] rest"
proof (cases l)
  case (OpRetain a)
  with assms(1) obtain b where b: "op = OpRetain b" by (cases op) simp_all
  from assms(2) OpRetain b have ab: "0 \<le> a" "a \<le> int (length rest)" "0 \<le> b"
    "b \<le> int (length rest) - a" by auto
  then have "nat (a + b) = nat a + nat b" by (simp add: nat_add_distrib)
  then show ?thesis using OpRetain b ab by (simp add: take_add add.commute)
next
  case (OpDelete a)
  with assms(1) obtain b where b: "op = OpDelete b" by (cases op) simp_all
  from assms(2) OpDelete b have ab: "0 \<le> a" "a \<le> int (length rest)" "0 \<le> b"
    "b \<le> int (length rest) - a" by auto
  then have "nat (a + b) = nat a + nat b" by (simp add: nat_add_distrib)
  then show ?thesis using OpDelete b ab by (simp add: add.commute)
next
  case (OpInsert s)
  with assms(1) obtain t where t: "op = OpInsert t" by (cases op) simp_all
  show ?thesis using OpInsert t by simp
qed

lemma fuse_step_run:
  assumes "fits (acc @ [op]) rest"
  shows "fits (fuse_step acc op) rest \<and> run (fuse_step acc op) rest = run (acc @ [op]) rest"
proof (cases "length acc > 0 \<and> sameOpType (last acc) op")
  case False
  then have "fuse_step acc op = acc @ [op]" by (auto simp add: fuse_step_def)
  then show ?thesis using assms by simp
next
  case True
  then have acc: "acc = butlast acc @ [last acc]" by simp
  have split: "acc @ [op] = butlast acc @ [last acc, op]"
    using acc by (metis append.assoc append_Cons append_Nil)
  have step: "fuse_step acc op = butlast acc @ [mergeOp (last acc) op]"
    using True by (simp add: fuse_step_def)
  from assms split have f1: "fits (butlast acc) rest"
    and f2: "fits [last acc, op] (snd (run (butlast acc) rest))"
    by (metis fits_append)+
  from merge_pair[OF _ f2] True
  have m: "fits [mergeOp (last acc) op] (snd (run (butlast acc) rest))"
    "run [mergeOp (last acc) op] (snd (run (butlast acc) rest)) =
     run [last acc, op] (snd (run (butlast acc) rest))" by simp_all
  have "fits (butlast acc @ [mergeOp (last acc) op]) rest"
    using f1 m(1) by (simp only: fits_append) 
  moreover have "run (butlast acc @ [mergeOp (last acc) op]) rest = run (butlast acc @ [last acc, op]) rest"
    by (simp only: run_append m(2))
  ultimately show ?thesis by (simp only: step split) 
qed

lemma foldl_fuse_step_run:
  assumes "fits (acc @ ops) rest"
  shows "fits (foldl fuse_step acc ops) rest \<and>
         run (foldl fuse_step acc ops) rest = run (acc @ ops) rest"
  using assms
proof (induction ops arbitrary: acc)
  case Nil
  then show ?case by simp
next
  case (Cons op ops)
  from Cons.prems have a: "fits ((acc @ [op]) @ ops) rest" by simp
  then have f1: "fits (acc @ [op]) rest" and f2: "fits ops (snd (run (acc @ [op]) rest))"
    by (simp_all only: fits_append)
  from fuse_step_run[OF f1]
  have s: "fits (fuse_step acc op) rest" "run (fuse_step acc op) rest = run (acc @ [op]) rest"
    by simp_all
  have "fits (fuse_step acc op @ ops) rest"
    using s f2 by (simp only: fits_append) 
  from Cons.IH[OF this]
  have "fits (foldl fuse_step (fuse_step acc op) ops) rest"
    "run (foldl fuse_step (fuse_step acc op) ops) rest = run (fuse_step acc op @ ops) rest"
    by simp_all
  moreover have "run (fuse_step acc op @ ops) rest = run ((acc @ [op]) @ ops) rest"
    by (simp only: run_append s(2))
  ultimately show ?case by simp
qed

lemma fuse_run:
  assumes "fits (operations cs) rest"
  shows "fits (operations (fuse cs)) rest \<and>
         run (operations (fuse cs)) rest = run (operations cs) rest"
  using assms foldl_fuse_step_run[of "[]" "operations cs" rest]
  by (simp add: fuse_def)


lemma Apply_run:
  assumes "fits (operations cs) (Rope_String r)"
  shows "\<exists>r'. Apply cs (Some r) = Inr (Some r') \<and>
           Rope_String r' = fst (run (operations cs) (Rope_String r))
                            @ snd (run (operations cs) (Rope_String r))"
proof (cases "IsEmpty cs")
  case True
  then show ?thesis by (simp add: Apply_def IsEmpty_def)
next
  case False
  from fuse_run[OF assms]
  have f: "fits (operations (fuse cs)) (Rope_String r)"
    and e: "run (operations (fuse cs)) (Rope_String r) = run (operations cs) (Rope_String r)"
    by simp_all
  from apply_ops_run[OF f, of r "[]" 0]
  obtain r' where "apply_ops (operations (fuse cs)) r 0 = Inr r'"
    "Rope_String r' = fst (run (operations (fuse cs)) (Rope_String r))
                            @ snd (run (operations (fuse cs)) (Rope_String r))" by auto
  then show ?thesis using False by (simp add: Apply_def e)
qed





lemma wellFormed_fits:
  assumes "list_all (\<lambda>op. 0 \<le> baseLength op) ops"
    and "sum_list (map baseLength ops) \<le> int (length rest)"
  shows "fits ops rest"
  using assms
proof (induction ops arbitrary: rest)
  case Nil
  show ?case by simp
next
  case (Cons op ops)
  from Cons.prems(1) have nn: "list_all (\<lambda>op. 0 \<le> baseLength op) ops" by simp
  then have s0: "0 \<le> sum_list (map baseLength ops)"
    by (induction ops) auto
  show ?case
  proof (cases op)
    case (OpRetain n)
    with Cons.prems s0 have n: "0 \<le> n" "n \<le> int (length rest)"
      "sum_list (map baseLength ops) \<le> int (length (drop (nat n) rest))" by auto
    show ?thesis using OpRetain n Cons.IH[OF nn n(3)] by simp
  next
    case (OpDelete n)
    with Cons.prems s0 have n: "0 \<le> n" "n \<le> int (length rest)"
      "sum_list (map baseLength ops) \<le> int (length (drop (nat n) rest))" by auto
    show ?thesis using OpDelete n Cons.IH[OF nn n(3)] by simp
  next
    case (OpInsert t)
    with Cons.prems have "sum_list (map baseLength ops) \<le> int (length rest)" by simp
    from Cons.IH[OF nn this] show ?thesis using OpInsert by simp
  qed
qed



section \<open>Apply and the base length\<close>

lemma apply_ops_no_length_error: "apply_ops ops r pos \<noteq> Inl ErrLengthMismatch"
proof (induction ops arbitrary: r pos)
  case Nil
  show ?case by simp
next
  case (Cons op ops)
  show ?case
  proof (cases op)
    case (OpRetain n)
    then show ?thesis using Cons.IH by simp
  next
    case (OpDelete n)
    then show ?thesis using Cons.IH
      by (auto simp add: Rope_Delete_def errDeleteOutOfBounds_def ErrLengthMismatch_def
          split: sum.splits if_splits)
  next
    case (OpInsert t)
    then show ?thesis using Cons.IH
      by (auto simp add: Rope_Insert_def errInsertOutOfBounds_def ErrLengthMismatch_def
          split: sum.splits if_splits)
  qed
qed

lemma Apply_no_length_error: "Apply c r \<noteq> Inl ErrLengthMismatch"
  using apply_ops_no_length_error
  by (auto simp add: Apply_def split: option.splits sum.splits)

lemma Apply_lenBefore_update: "Apply (c\<lparr>lenBefore := n\<rparr>) r = Apply c r"
  by (simp add: Apply_def IsEmpty_def fuse_def split: option.splits)

text \<open>
  C4, as stated, fails: the changeset \<open>NewChangeSet(5).Insert("x")\<close> has base length 5, the
  empty rope has length 0 (in characters and in UTF-16 code units), and Apply returns the
  rope "x" instead of a LengthMismatch error.
\<close>

theorem C4_length_check_counterexample:
  "lenBefore (Insert (NewChangeSet 5) (runes ''x'')) \<noteq> LenUTF16 (LeafNode []) \<and>
   lenBefore (Insert (NewChangeSet 5) (runes ''x'')) \<noteq> Rope_Length (LeafNode []) \<and>
   Apply (Insert (NewChangeSet 5) (runes ''x'')) (Some (LeafNode [])) \<noteq> Inl ErrLengthMismatch \<and>
   (\<exists>r'. Apply (Insert (NewChangeSet 5) (runes ''x'')) (Some (LeafNode [])) = Inr (Some r') \<and>
         Rope_String r' = runes ''x'')"
  by (simp add: cs_defs apply_defs rope_defs runes_def LenUTF16_def ErrLengthMismatch_def)

text \<open>
  C4, amended: Apply does not compare \<open>lenBefore\<close> with the rope's length. For every
  changeset \<open>c\<close> and rope \<open>r\<close> the result of Apply is the same whatever value
  \<open>lenBefore\<close> has, and it is never a LengthMismatch error; a changeset whose operations fit
  the rope (no negative count, Retain and Delete counts within the rope's length in
  characters) is applied without any failure, whether or not its \<open>lenBefore\<close> equals the
  rope's length.
\<close>

theorem C4_apply_ignores_lenBefore:
  "Apply (c\<lparr>lenBefore := n\<rparr>) r = Apply c r \<and>
   Apply c r \<noteq> Inl ErrLengthMismatch \<and>
   (wellFormed c (Rope_Length rp) \<longrightarrow> (\<exists>r'. Apply c (Some rp) = Inr (Some r')))"
proof -
  have "\<exists>r'. Apply c (Some rp) = Inr (Some r')" if "wellFormed c (Rope_Length rp)"
  proof -
    from that have "fits (operations c) (Rope_String rp)"
      by (simp add: wellFormed_def Rope_Length_def wellFormed_fits)
    from Apply_run[OF this] show ?thesis by blast
  qed
  then show ?thesis
    using Apply_lenBefore_update Apply_no_length_error by blast
qed

theorem C4_apply_ignores_lenBefore_witness:
  "wellFormed (Insert (NewChangeSet 5) (runes ''x'')) (Rope_Length (LeafNode [])) \<and>
   lenBefore (Insert (NewChangeSet 5) (runes ''x'')) \<noteq> Rope_Length (LeafNode []) \<and>
   (\<exists>r'. Apply (Insert (NewChangeSet 5) (runes ''x'')) (Some (LeafNode [])) = Inr (Some r'))"
proof -
  have wf: "wellFormed (Insert (NewChangeSet 5) (runes ''x'')) (Rope_Length (LeafNode []))"
    by (simp add: wellFormed_def cs_defs rope_defs)
  have ne: "lenBefore (Insert (NewChangeSet 5) (runes ''x'')) \<noteq> Rope_Length (LeafNode [])"
    by (simp add: cs_defs rope_defs)
  from C4_apply_ignores_lenBefore[where c = "Insert (NewChangeSet 5) (runes ''x'')"
      and rp = "LeafNode []"]
    wf ne show ?thesis by blast
qed

section \<open>Compose and Transform at the repository's own examples\<close>

text \<open>
  C2 (the code differs from the claim): at the changesets of the repository's test
  TestCompose_DeleteDelete, \<open>a = NewChangeSet(4).Retain(1).Delete(1)\<close> and
  \<open>b = NewChangeSet(3).Retain(1).Delete(1)\<close> on the rope "abcd", applying \<open>a\<close> and then
  \<open>b\<close> gives "ad", while applying \<open>Compose a b\<close> gives "ac". At the changesets of
  TestCompose_InsertInsert, \<open>a = NewChangeSet(2).Retain(1).Insert("x")\<close> and
  \<open>b = NewChangeSet(3).Retain(2).Insert("y")\<close> on "ab", the composed changeset has
  \<open>lenAfter = 5\<close> while \<open>lenAfter b = 4\<close>, and applying it fails in the rope's Insert.
  The simplified Compose of unnamed/part_006 gives "ac" at the first input as well.
\<close>

theorem C2_compose_diverges:
  "lenAfter (Delete (Retain (NewChangeSet 4) 1) 1) = lenBefore (Delete (Retain (NewChangeSet 3) 1) 1) \<and>
   (\<exists>r1 r2 rc.
     Apply (Delete (Retain (NewChangeSet 4) 1) 1) (Some (LeafNode (runes ''abcd''))) = Inr (Some r1) \<and>
     Apply (Delete (Retain (NewChangeSet 3) 1) 1) (Some r1) = Inr (Some r2) \<and>
     Rope_String r2 = runes ''ad'' \<and>
     Apply (Compose (Delete (Retain (NewChangeSet 4) 1) 1)
              (Some (Delete (Retain (NewChangeSet 3) 1) 1)))
       (Some (LeafNode (runes ''abcd''))) = Inr (Some rc) \<and>
     Rope_String rc = runes ''ac'') \<and>
   (\<exists>cs rs.
     Compose_simplified (Delete (Retain (NewChangeSet 4) 1) 1)
       (Some (Delete (Retain (NewChangeSet 3) 1) 1)) = Some cs \<and>
     Apply cs (Some (LeafNode (runes ''abcd''))) = Inr (Some rs) \<and>
     Rope_String rs = runes ''ac'') \<and>
   lenAfter (Insert (Retain (NewChangeSet 2) 1) (runes ''x''))
     = lenBefore (Insert (Retain (NewChangeSet 3) 2) (runes ''y'')) \<and>
   lenAfter (Insert (Retain (NewChangeSet 3) 2) (runes ''y'')) = 4 \<and>
   lenAfter (Compose (Insert (Retain (NewChangeSet 2) 1) (runes ''x''))
               (Some (Insert (Retain (NewChangeSet 3) 2) (runes ''y'')))) = 5 \<and>
   Apply (Compose (Insert (Retain (NewChangeSet 2) 1) (runes ''x''))
            (Some (Insert (Retain (NewChangeSet 3) 2) (runes ''y''))))
     (Some (LeafNode (runes ''ab''))) = Inl (ErrOutOfBounds ''Insert'' 4 0 4)"
  by (simp add: cs_defs compose_defs apply_defs rope_defs runes_def)

text \<open>
  C1 (the code differs from the claim): \<open>Transform\<close> returns one changeset, the
  composition of its receiver and its argument, not a pair. On the empty rope with
  \<open>a = Insert("Hello")\<close> and \<open>b = Insert("World")\<close>, applying \<open>a\<close> and then
  \<open>a.Transform(b)\<close> gives "HelloWorldHello", and applying \<open>b\<close> and then
  \<open>b.Transform(a)\<close> gives "WorldHelloWorld". Taking the results the other way round,
  \<open>a\<close> and then \<open>b.Transform(a)\<close> gives "WorldHelloHello", and \<open>b\<close> and then
  \<open>a.Transform(b)\<close> gives "HelloWorldWorld". Under either reading the two orders
  differ, and none of the four ropes is "HelloWorld".
\<close>

theorem C1_transform_diverges:
  "lenBefore (Insert (NewChangeSet 0) (runes ''Hello''))
     = lenBefore (Insert (NewChangeSet 0) (runes ''World'')) \<and>
   (\<exists>ra rb x y x' y'.
     Apply (Insert (NewChangeSet 0) (runes ''Hello'')) (Some (LeafNode [])) = Inr (Some ra) \<and>
     Apply (Insert (NewChangeSet 0) (runes ''World'')) (Some (LeafNode [])) = Inr (Some rb) \<and>
     Apply (Transform (Insert (NewChangeSet 0) (runes ''Hello''))
                      (Insert (NewChangeSet 0) (runes ''World''))) (Some ra) = Inr (Some x) \<and>
     Apply (Transform (Insert (NewChangeSet 0) (runes ''World''))
                      (Insert (NewChangeSet 0) (runes ''Hello''))) (Some rb) = Inr (Some y) \<and>
     Rope_String x = runes ''HelloWorldHello'' \<and>
     Rope_String y = runes ''WorldHelloWorld'' \<and>
     Apply (Transform (Insert (NewChangeSet 0) (runes ''World''))
                      (Insert (NewChangeSet 0) (runes ''Hello''))) (Some ra) = Inr (Some x') \<and>
     Apply (Transform (Insert (NewChangeSet 0) (runes ''Hello''))
                      (Insert (NewChangeSet 0) (runes ''World''))) (Some rb) = Inr (Some y') \<and>
     Rope_String x' = runes ''WorldHelloHello'' \<and>
     Rope_String y' = runes ''HelloWorldWorld'')"
  by (simp add: cs_defs compose_defs apply_defs rope_defs runes_def)

section \<open>Pruning the history\<close>

lemmas hist_defs = NewHistory_def CommitRevision_def Transaction_IsEmpty_def
  Transaction_Invert_def NewTransaction_def Invert_def prune_def rebase_def SetMaxSize_def
  Undo_def Redo_def parentValid_def

text \<open>
  C6 (the code differs from the claim): commit T1, commit T2, undo, commit T3 gives three
  revisions with the parents -1, 0, 0 (T2 and T3 are siblings under T1). \<open>SetMaxSize 1\<close>
  then prunes two revisions and subtracts 2 from the surviving revision's parent 0: the
  parent becomes -2, which is neither -1 nor the index of a surviving revision. The
  current index is clamped, the parent is not. An Undo afterwards moves \<open>current\<close> to
  -2, and the next Redo indexes the revisions with it.
\<close>

theorem C6_prune_dangling_parent:
  "\<exists>h1 h2 h3 u h4 h5 v.
     CommitRevision NewHistory
       (Some (Transaction (Some (Insert (NewChangeSet 0) (runes ''a'')))))
       (Some (LeafNode [])) = Inr h1 \<and>
     CommitRevision h1
       (Some (Transaction (Some (Insert (Retain (NewChangeSet 1) 1) (runes ''b'')))))
       (Some (LeafNode (runes ''a''))) = Inr h2 \<and>
     Undo h2 = Inr (h3, u) \<and>
     CommitRevision h3
       (Some (Transaction (Some (Insert (Retain (NewChangeSet 1) 1) (runes ''c'')))))
       (Some (LeafNode (runes ''a''))) = Inr h4 \<and>
     map parent (revisions h4) = [-1, 0, 0] \<and>
     map parent (revisions (SetMaxSize h4 1)) = [-2] \<and>
     current (SetMaxSize h4 1) = 0 \<and>
     \<not> parentValid (revisions (SetMaxSize h4 1)) 0 \<and>
     Undo (SetMaxSize h4 1) = Inr (h5, v) \<and>
     current h5 = -2 \<and>
     Redo h5 = Inl (Panic ''index out of range'')"
  by (simp add: hist_defs cs_defs rope_defs fuse_def fuse_step_def runes_def Let_def)

section \<open>Mapping positions\<close>

lemmas map_defs = MapPosition_def ChangeSet_MapPositions_def MapPositions_def Map_def
  NewPositionMapper_def AddPosition_def isSorted_def mapSorted_def advanceTo_def
  pm_applyAssociation_def mapUnsorted_def mapSinglePosition_def

text \<open>
  C7 (the code differs from the claim): on the rope "Line 1\nLine 2\nLine 3" of 20
  characters, through the changeset \<open>NewChangeSet(20).Retain(6).Insert("X")\<close>,
  \<open>MapPosition\<close> maps the position 6 to 6 and the position 13 to 7, not to 14: the
  position lies beyond the last operation, and the function returns the \<open>newPos\<close> it has
  reached there. \<open>Apply\<close> of the same changeset keeps the text that follows the
  insertion, so that what stood from position 13 on stands from position 14 on in the new
  document. The position mapper gives 14 for the same changeset on its sorted path
  (\<open>mapSorted\<close>) and 7 on its unsorted path (the positions handed over as 13, 6).
\<close>

theorem C7_map_position_diverges:
  "Rope_Length (LeafNode (runes ''Line 1'' @ newline # runes ''Line 2'' @ newline
                          # runes ''Line 3'')) = 20 \<and>
   lenBefore (Insert (Retain (NewChangeSet 20) 6) (runes ''X'')) = 20 \<and>
   MapPosition (Insert (Retain (NewChangeSet 20) 6) (runes ''X'')) 6 AssocBefore = 6 \<and>
   MapPosition (Insert (Retain (NewChangeSet 20) 6) (runes ''X'')) 13 AssocBefore = 7 \<and>
   ChangeSet_MapPositions (Insert (Retain (NewChangeSet 20) 6) (runes ''X'')) [6, 13]
     [AssocBefore, AssocBefore] = Inr [6, 7] \<and>
   (\<exists>r'.
      Apply (Insert (Retain (NewChangeSet 20) 6) (runes ''X''))
        (Some (LeafNode (runes ''Line 1'' @ newline # runes ''Line 2'' @ newline
                         # runes ''Line 3''))) = Inr (Some r') \<and>
      Rope_String r'
        = runes ''Line 1X'' @ newline # runes ''Line 2'' @ newline # runes ''Line 3'' \<and>
      drop 14 (Rope_String r')
        = drop 13 (Rope_String (LeafNode (runes ''Line 1'' @ newline # runes ''Line 2''
                                          @ newline # runes ''Line 3'')))) \<and>
   MapPositions (Insert (Retain (NewChangeSet 20) 6) (runes ''X'')) [6, 13] AssocBefore
     = Some [6, 14] \<and>
   MapPositions (Insert (Retain (NewChangeSet 20) 6) (runes ''X'')) [13, 6] AssocBefore
     = Some [7, 6]"
  by (simp add: map_defs cs_defs apply_defs rope_defs runes_def newline_def
      mapSorted_advance.simps)

section \<open>Range checks that abort\<close>

lemma SliceOptimized_panics:
  "start < 0 \<or> end' > Rope_Length r \<or> start > end' \<Longrightarrow>
   SliceOptimized bits (Some r) start end' = Inl (Panic ''slice bounds out of range'')"
  by (simp add: SliceOptimized_def)

lemma SliceOptimized_untyped: "\<not> isTypedError (SliceOptimized bits r start end')"
  by (simp add: SliceOptimized_def isTypedError_def Let_def split: option.splits)

lemma LineStart_panics:
  "n < 0 \<or> n \<ge> LineCount r \<Longrightarrow> LineStart r n = Inl (Panic ''line number out of bounds'')"
  by (simp add: LineStart_def)

lemma LineStart_untyped: "\<not> isTypedError (LineStart r n)"
  by (simp add: LineStart_def isTypedError_def split: option.splits)

lemma LineAtChar_panics:
  "pos < 0 \<or> pos > Rope_Length r \<Longrightarrow>
   LineAtChar r pos = Inl (Panic ''character position out of bounds'')"
  by (simp add: LineAtChar_def)

lemma LineAtChar_untyped: "\<not> isTypedError (LineAtChar r pos)"
  by (simp add: LineAtChar_def isTypedError_def)

text \<open>
  The guard is not the only abort of \<open>SliceOptimized\<close>: on a rope of ASCII text sliced in
  full, the product \<^verbatim>\<open>r.size * (end - start)\<close> wraps to a negative number from 46341
  characters on with an \<^verbatim>\<open>int\<close> of 32 bits, and from 3037000500 characters on with one of
  64 bits, and \<^verbatim>\<open>b.Grow\<close> panics, with the arguments in range.
\<close>

lemma Rope_Size_ascii: "Rope_Size (LeafNode (replicate n 97)) = int n"
  by (induction n) (simp_all add: Rope_Size_def Rope_String_def utf8Encode_def)

lemma SliceOptimized_Grow_panics:
  "SliceOptimized 32 (Some (LeafNode (replicate 46341 97))) 0 46341
     = Inl (Panic ''strings.Builder.Grow: negative count'') \<and>
   SliceOptimized 64 (Some (LeafNode (replicate 3037000500 97))) 0 3037000500
     = Inl (Panic ''strings.Builder.Grow: negative count'')"
  by (simp add: SliceOptimized_def Rope_Size_ascii Rope_Length_def Rope_String_def
      wrapInt_def goDiv_def)

text \<open>
  C8, as stated, fails: on the rope "abc", a reversed range and a range past the end make
  \<open>SliceOptimized\<close> panic, line 1 (the rope has one line) makes \<open>LineStart\<close> panic and
  position -1 makes \<open>LineAtChar\<close> panic; none returns a typed error.
\<close>

theorem C8_range_errors_counterexample:
  "SliceOptimized 64 (Some (LeafNode (runes ''abc''))) 2 1
     = Inl (Panic ''slice bounds out of range'') \<and>
   SliceOptimized 64 (Some (LeafNode (runes ''abc''))) 0 4
     = Inl (Panic ''slice bounds out of range'') \<and>
   LineStart (LeafNode (runes ''abc'')) 1 = Inl (Panic ''line number out of bounds'') \<and>
   LineAtChar (LeafNode (runes ''abc'')) (- 1)
     = Inl (Panic ''character position out of bounds'')"
  by (simp add: SliceOptimized_def LineStart_def LineAtChar_def LineCount_def rope_defs
      runes_def newline_def)

text \<open>
  C8, amended: \<open>SliceOptimized\<close>, \<open>LineStart\<close> and \<open>LineAtChar\<close> answer an argument
  out of range with a panic and never with a typed error. For every rope and all integer
  arguments, whatever the width of \<^verbatim>\<open>int\<close>: \<open>SliceOptimized\<close> panics with "slice bounds
  out of range" when \<open>start < 0\<close>, \<open>end\<close> exceeds the length or \<open>start > end\<close>;
  \<open>LineStart\<close> panics with "line number out of bounds" when the line number is negative
  or not below the line count; \<open>LineAtChar\<close> panics with "character position out of
  bounds" when the position is negative or exceeds the length; and no call of the three
  returns a typed error.
\<close>

theorem C8_range_checks_panic:
  "(start < 0 \<or> end' > Rope_Length r \<or> start > end' \<longrightarrow>
      SliceOptimized bits (Some r) start end' = Inl (Panic ''slice bounds out of range'')) \<and>
   \<not> isTypedError (SliceOptimized bits ropt start end') \<and>
   (n < 0 \<or> n \<ge> LineCount r \<longrightarrow>
      LineStart r n = Inl (Panic ''line number out of bounds'')) \<and>
   \<not> isTypedError (LineStart r n) \<and>
   (pos < 0 \<or> pos > Rope_Length r \<longrightarrow>
      LineAtChar r pos = Inl (Panic ''character position out of bounds'')) \<and>
   \<not> isTypedError (LineAtChar r pos)"
  using SliceOptimized_panics SliceOptimized_untyped LineStart_panics LineStart_untyped
    LineAtChar_panics LineAtChar_untyped
  by blast

theorem C8_range_checks_panic_witness:
  "(5 > Rope_Length (InternalNode (LeafNode (runes ''ab'')) (LeafNode (runes ''cd'')))) \<and>
   SliceOptimized 32 (Some (InternalNode (LeafNode (runes ''ab'')) (LeafNode (runes ''cd'')))) 1 5
     = Inl (Panic ''slice bounds out of range'') \<and>
   \<not> isTypedError (SliceOptimized 32 None 1 5) \<and>
   (- 1 < (0::int)) \<and>
   LineStart (InternalNode (LeafNode (runes ''ab'')) (LeafNode (runes ''cd''))) (- 1)
     = Inl (Panic ''line number out of bounds'') \<and>
   (5 > Rope_Length (InternalNode (LeafNode (runes ''ab'')) (LeafNode (runes ''cd'')))) \<and>
   LineAtChar (InternalNode (LeafNode (runes ''ab'')) (LeafNode (runes ''cd''))) 5
     = Inl (Panic ''character position out of bounds'')"
proof -
  have a: "5 > Rope_Length (InternalNode (LeafNode (runes ''ab'')) (LeafNode (runes ''cd'')))"
    by (simp add: rope_defs runes_def)
  have b: "- 1 < (0::int)"
    by simp
  from C8_range_checks_panic[where start = 1 and end' = 5 and bits = 32 and ropt = None
      and r = "InternalNode (LeafNode (runes ''ab'')) (LeafNode (runes ''cd''))"
      and n = "- 1" and pos = 5] a b
  show ?thesis
    by simp
qed

section \<open>Hashing and the leaf partition\<close>

lemma concat_leaves:
  "concat (map (\<lambda>leaf. concat (map f leaf)) xs) = concat (map f (concat xs))"
  by (induction xs) simp_all

lemma IterBytes_String: "IterBytes r = concat (map utf8Encode (Rope_String r))"
  by (simp add: IterBytes_def Rope_String_def concat_leaves)

text \<open>
  C9: chunk-invariant hashing. Two ropes with the same text, whatever their leaves, have
  equal 32-bit and 64-bit hash codes and are equal by \<open>Equals\<close>; the hash is the FNV-1a
  sum of the UTF-8 bytes of the text, a function of the byte stream alone.
\<close>

theorem C9_chunk_invariant_hash:
  assumes "Rope_String r1 = Rope_String r2"
  shows "HashCode32 r1 = HashCode32 r2 \<and> HashCode r1 = HashCode r2 \<and>
         HashCode64 r1 = HashCode64 r2 \<and> Equals r1 r2 \<and>
         HashCode32 r1
           = foldl fnv32a_Write 2166136261 (concat (map utf8Encode (Rope_String r1)))"
  using assms
  by (simp add: HashCode32_def HashCode_def HashCode64_def Equals_def IterBytes_String)

theorem C9_chunk_invariant_hash_witness:
  "Rope_Chunks (InternalNode (LeafNode (runes ''Hello w'')) (LeafNode (runes ''orld'')))
     \<noteq> Rope_Chunks (InternalNode (LeafNode (runes ''Hell'')) (LeafNode (runes ''o world''))) \<and>
   Rope_String (InternalNode (LeafNode (runes ''Hello w'')) (LeafNode (runes ''orld'')))
     = Rope_String (InternalNode (LeafNode (runes ''Hell'')) (LeafNode (runes ''o world''))) \<and>
   HashCode32 (InternalNode (LeafNode (runes ''Hello w'')) (LeafNode (runes ''orld'')))
     = HashCode32 (InternalNode (LeafNode (runes ''Hell'')) (LeafNode (runes ''o world''))) \<and>
   HashCode64 (InternalNode (LeafNode (runes ''Hello w'')) (LeafNode (runes ''orld'')))
     = HashCode64 (InternalNode (LeafNode (runes ''Hell'')) (LeafNode (runes ''o world''))) \<and>
   Equals (InternalNode (LeafNode (runes ''Hello w'')) (LeafNode (runes ''orld'')))
     (InternalNode (LeafNode (runes ''Hell'')) (LeafNode (runes ''o world'')))"
proof -
  have ne: "Rope_Chunks (InternalNode (LeafNode (runes ''Hello w'')) (LeafNode (runes ''orld'')))
     \<noteq> Rope_Chunks (InternalNode (LeafNode (runes ''Hell'')) (LeafNode (runes ''o world'')))"
    by (simp add: runes_def)
  have eq: "Rope_String (InternalNode (LeafNode (runes ''Hello w'')) (LeafNode (runes ''orld'')))
     = Rope_String (InternalNode (LeafNode (runes ''Hell'')) (LeafNode (runes ''o world'')))"
    by (simp add: Rope_String_def runes_def)
  from C9_chunk_invariant_hash[OF eq] ne eq show ?thesis by blast
qed

section \<open>The lines iterator\<close>

lemma yielded_range:
  assumes "- 1 \<le> lineNum it"
  shows "yielded it = map int [nat (lineNum it + 1) ..< nat (totalLines it)]"
  using assms
proof (induction it rule: yielded.induct)
  case (1 it)
  show ?case
  proof (cases "lineNum it + 1 < totalLines it")
    case True
    then have n: "snd (Next it)" by (simp add: Next_def)
    have l: "lineNum (fst (Next it)) = lineNum it + 1"
      "totalLines (fst (Next it)) = totalLines it"
      by (simp_all add: Next_def)
    from "1.prems" have "- 1 \<le> lineNum (fst (Next it))" using l by simp
    from "1.IH"[OF n this] have ih:
      "yielded (fst (Next it)) = map int [nat (lineNum it + 1 + 1) ..< nat (totalLines it)]"
      using l by simp
    have u: "[nat (lineNum it + 1) ..< nat (totalLines it)]
             = nat (lineNum it + 1) # [nat (lineNum it + 1 + 1) ..< nat (totalLines it)]"
      using True "1.prems" by (simp add: upt_conv_Cons nat_add_distrib Suc_nat_eq_nat_zadd1)
    have "yielded it = LineNumber (fst (Next it)) # yielded (fst (Next it))"
      using n by (subst yielded.simps) simp
    then show ?thesis using ih u l "1.prems" by (simp add: LineNumber_def)
  next
    case False
    then have n: "\<not> snd (Next it)" by (simp add: Next_def)
    have "yielded it = []" using n by (subst yielded.simps) simp
    then show ?thesis using False by simp
  qed
qed

text \<open>
  C10: a freshly constructed LinesIterator starts with its counter at 0 and \<open>Next\<close>
  increments before the bounds check, so for a rope of \<open>L\<close> lines the loop over
  \<open>Next\<close> runs exactly at the line numbers 1 to \<open>L - 1\<close>, never at line 0; after
  \<open>Reset\<close>, which sets the counter to -1, it runs at all line numbers 0 to \<open>L - 1\<close>.
\<close>

theorem C10_lines_iterator_skips_first:
  "lineNum (Rope_LinesIterator r) = 0 \<and>
   lineNum (fst (Next it)) = lineNum it + 1 \<and>
   snd (Next it) = (lineNum it + 1 < totalLines it) \<and>
   yielded (Rope_LinesIterator r) = map int [1 ..< nat (LineCount r)] \<and>
   0 \<notin> set (yielded (Rope_LinesIterator r)) \<and>
   lineNum (Reset it) = - 1 \<and>
   yielded (Reset (Rope_LinesIterator r)) = map int [0 ..< nat (LineCount r)]"
proof -
  have fresh: "lineNum (Rope_LinesIterator r) = 0"
    by (simp add: Rope_LinesIterator_def)
  have step: "lineNum (fst (Next it)) = lineNum it + 1"
    "snd (Next it) = (lineNum it + 1 < totalLines it)"
    by (simp_all add: Next_def)
  have "yielded (Rope_LinesIterator r)
          = map int [nat (lineNum (Rope_LinesIterator r) + 1)
                     ..< nat (totalLines (Rope_LinesIterator r))]"
    by (rule yielded_range) (simp add: fresh)
  then have from_one: "yielded (Rope_LinesIterator r) = map int [1 ..< nat (LineCount r)]"
    by (simp add: Rope_LinesIterator_def)
  have no_zero: "0 \<notin> set (yielded (Rope_LinesIterator r))"
    unfolding from_one by auto
  have reset: "lineNum (Reset it) = - 1"
    by (simp add: Reset_def)
  have "yielded (Reset (Rope_LinesIterator r))
          = map int [nat (lineNum (Reset (Rope_LinesIterator r)) + 1)
                     ..< nat (totalLines (Reset (Rope_LinesIterator r)))]"
    by (rule yielded_range) (simp add: Reset_def)
  then have from_zero:
    "yielded (Reset (Rope_LinesIterator r)) = map int [0 ..< nat (LineCount r)]"
    by (simp add: Reset_def Rope_LinesIterator_def)
  show ?thesis
    using fresh step from_one no_zero reset from_zero by simp
qed

lemma lines_iterator_example:
  "LineCount (LeafNode (runes ''Line 1'' @ newline # runes ''Line 2'' @ newline
                        # runes ''Line 3'')) = 3 \<and>
   yielded (Rope_LinesIterator (LeafNode (runes ''Line 1'' @ newline # runes ''Line 2''
                                          @ newline # runes ''Line 3''))) = [1, 2] \<and>
   yielded (Reset (Rope_LinesIterator (LeafNode (runes ''Line 1'' @ newline
                                          # runes ''Line 2'' @ newline # runes ''Line 3''))))
     = [0, 1, 2]"
proof -
  have n: "LineCount (LeafNode (runes ''Line 1'' @ newline # runes ''Line 2'' @ newline
                        # runes ''Line 3'')) = 3"
    by (simp add: LineCount_def rope_defs runes_def newline_def)
  have u: "[Suc 0 ..< 3] = [1, 2::nat]" "[0 ..< 3] = [0, 1, 2::nat]"
    by (simp_all add: upt_rec)
  show ?thesis
    by (simp add: yielded_range Rope_LinesIterator_def Reset_def n u)
qed

end
